theory Spec2Isabelle
  imports Main
begin

section \<open>Expression model\<close>

text \<open>
  The three programs (\<^verbatim>\<open>server.py\<close>, \<^verbatim>\<open>proxy.py\<close>, \<^verbatim>\<open>client.py\<close>) share the module
  \<^verbatim>\<open>api\<close>, which holds the expression classes, the operator registry and the wire codec.
  The operator names are the ones \<^verbatim>\<open>client.py\<close> lists (\<^verbatim>\<open>add_b\<close>, \<^verbatim>\<open>neg_u\<close>, \<^verbatim>\<open>sin_f\<close>, ...);
  the suffixes \<open>_B\<close>, \<open>_U\<close>, \<open>_F\<close> follow that file.
\<close>

datatype binop = ADD_B | SUB_B | MUL_B | DIV_B | MOD_B | POW_B

datatype unop = NEG_U | POS_U

datatype func = SIN_F | COS_F | TAN_F | SQRT_F | LOG_F | MAX_F | MIN_F | POW_F | RAND_F

text \<open>
  An expression tree over numbers of type \<open>'v\<close>. Python lets a bare number stand where an
  expression is expected (\<^verbatim>\<open>mul_b(3, 4)\<close> in \<^verbatim>\<open>client.py\<close>, and
  \<^verbatim>\<open>api.BinaryExpr(left, expr.operator, step)\<close> in \<^verbatim>\<open>calculate\<close>, where \<^verbatim>\<open>left\<close> is a number):
  that is the constructor \<open>Literal\<close>.
\<close>

datatype 'v expr =
    Literal 'v
  | Constant 'v
  | NamedConstant string 'v
  | BinaryExpr "'v expr" binop "'v expr"
  | UnaryExpr unop "'v expr"
  | FunctionCallExpr func "'v expr list"

datatype error =
    TypeError
  | CalculatorServerError
  | CalculatorClientError
  | Raised string

text \<open>
  The evaluation rules of the registry are not part of the three files; they are
  parameters. Each rule may raise (a division by zero, a wrong number of arguments), so it
  returns a sum.
\<close>

record 'v registry =
  bin_function :: "binop \<Rightarrow> 'v \<Rightarrow> 'v \<Rightarrow> error + 'v"
  un_function :: "unop \<Rightarrow> 'v \<Rightarrow> error + 'v"
  fn_function :: "func \<Rightarrow> 'v list \<Rightarrow> error + 'v"
  bin_symbol :: "binop \<Rightarrow> string"
  un_symbol :: "unop \<Rightarrow> string"
  fn_symbol :: "func \<Rightarrow> string"
  render :: "'v \<Rightarrow> string"

text \<open>
  Modelled from the spec: \<^verbatim>\<open>api.type_fallback\<close>, which is not in the three files. It
  "normalizes any literal number encountered in place of an Expression into a Constant".
\<close>

fun type_fallback :: "'v expr \<Rightarrow> 'v expr" where
  "type_fallback (Literal v) = Constant v"
| "type_fallback e = e"

section \<open>The evaluator of \<^verbatim>\<open>server.py\<close>\<close>

text \<open>
  \<^verbatim>\<open>for step in xs: steps.append(f(step))\<close>: the list \<open>steps\<close> grows by one element per
  iteration.
\<close>

definition append_each :: "('a \<Rightarrow> 'b) \<Rightarrow> 'b list \<Rightarrow> 'a list \<Rightarrow> 'b list" where
  "append_each f steps xs = foldl (\<lambda>acc step. acc @ [f step]) steps xs"

text \<open>
  \<^verbatim>\<open>calculate(expression, steps)\<close>. The list \<open>steps\<close> is mutated in place and returned; the
  model takes its contents and returns the new contents. Python's \<^verbatim>\<open>xs[:-1]\<close> is
  \<open>butlast xs\<close>, also on the empty list. The first equation is the effect of
  \<^verbatim>\<open>type_fallback\<close> on a bare number followed by the \<^verbatim>\<open>Constant\<close> branch.

  \<open>calculate_args\<close> is the loop \<^verbatim>\<open>for arg in expr.args\<close> of the \<^verbatim>\<open>FunctionCallExpr\<close> branch:
  \<open>all_args\<close> is \<^verbatim>\<open>expr.args\<close>, \<open>rest\<close> the arguments not yet visited, \<open>args\<close> the values
  resolved so far.
\<close>

fun calculate :: "'v registry \<Rightarrow> 'v expr \<Rightarrow> 'v expr list \<Rightarrow> error + ('v \<times> 'v expr list)"
  and calculate_args :: "'v registry \<Rightarrow> func \<Rightarrow> 'v expr list \<Rightarrow> 'v expr list \<Rightarrow> 'v list
    \<Rightarrow> 'v expr list \<Rightarrow> error + ('v list \<times> 'v expr list)" where
  "calculate reg (Literal v) steps = Inr (v, steps)"
| "calculate reg (Constant v) steps = Inr (v, steps)"
| "calculate reg (NamedConstant n v) steps = Inr (v, steps)"
| "calculate reg (BinaryExpr left_operand operator right_operand) steps =
     (case calculate reg left_operand [] of
        Inl e \<Rightarrow> Inl e
      | Inr (left, left_steps) \<Rightarrow>
          let steps1 = append_each (\<lambda>step. BinaryExpr step operator right_operand)
                         steps (butlast left_steps)
          in (case calculate reg right_operand [] of
                Inl e \<Rightarrow> Inl e
              | Inr (right, right_steps) \<Rightarrow>
                  let steps2 = append_each (\<lambda>step. BinaryExpr (Literal left) operator step)
                                 steps1 (butlast right_steps);
                      steps3 = steps2 @ [BinaryExpr (Literal left) operator (Literal right)]
                  in (case bin_function reg operator left right of
                        Inl e \<Rightarrow> Inl e
                      | Inr c \<Rightarrow> Inr (c, steps3 @ [Constant c]))))"
| "calculate reg (UnaryExpr operator operand_expr) steps =
     (case calculate reg operand_expr [] of
        Inl e \<Rightarrow> Inl e
      | Inr (operand, operand_steps) \<Rightarrow>
          let steps1 = append_each (\<lambda>step. UnaryExpr operator step) steps (butlast operand_steps);
              steps2 = steps1 @ [UnaryExpr operator (Literal operand)]
          in (case un_function reg operator operand of
                Inl e \<Rightarrow> Inl e
              | Inr c \<Rightarrow> Inr (c, steps2 @ [Constant c])))"
| "calculate reg (FunctionCallExpr function all_args) steps =
     (case calculate_args reg function all_args all_args [] steps of
        Inl e \<Rightarrow> Inl e
      | Inr (args, steps1) \<Rightarrow>
          let steps2 = steps1 @ [FunctionCallExpr function (map Literal args)]
          in (case fn_function reg function args of
                Inl e \<Rightarrow> Inl e
              | Inr c \<Rightarrow> Inr (c, steps2 @ [Constant c])))"
| "calculate_args reg function all_args [] args steps = Inr (args, steps)"
| "calculate_args reg function all_args (arg # rest) args steps =
     (case calculate reg arg [] of
        Inl e \<Rightarrow> Inl e
      | Inr (a, arg_steps) \<Rightarrow>
          let steps1 = append_each
                (\<lambda>step. FunctionCallExpr function
                           (map Literal args @ [step] @ drop (length args + 1) all_args))
                steps (butlast arg_steps)
          in calculate_args reg function all_args rest (args @ [a]) steps1)"

text \<open>
  A call \<^verbatim>\<open>calculate(expression)\<close> with no second argument binds \<open>steps\<close> to the default
  value of the parameter, \<^verbatim>\<open>steps: list[str] = []\<close>. Python creates that list once, when the
  \<^verbatim>\<open>def\<close> statement runs; every such call appends to the same object and returns it. The
  contents of that object are a piece of module state, \<open>default_steps\<close>, empty when the
  module is loaded.
\<close>

definition calculate_default ::
  "'v registry \<Rightarrow> 'v expr list \<Rightarrow> 'v expr \<Rightarrow> error + ('v \<times> 'v expr list)" where
  "calculate_default reg default_steps expression = calculate reg expression default_steps"

text \<open>
  Two successive calls \<^verbatim>\<open>calculate(e1)\<close>, \<^verbatim>\<open>calculate(e2)\<close> in a freshly loaded module, both
  returning: the second call starts from what the first left in the default list.
\<close>

definition two_default_calls ::
  "'v registry \<Rightarrow> 'v expr \<Rightarrow> 'v expr
     \<Rightarrow> error + (('v \<times> 'v expr list) \<times> ('v \<times> 'v expr list))" where
  "two_default_calls reg e1 e2 =
     (case calculate_default reg [] e1 of
        Inl err \<Rightarrow> Inl err
      | Inr first \<Rightarrow>
          (case calculate_default reg (snd first) e2 of
             Inl err \<Rightarrow> Inl err
           | Inr second \<Rightarrow> Inr (first, second)))"

section \<open>The step trace as the specification words it\<close>

text \<open>
  Results of a sequence of evaluations made strictly left to right: the first failure
  is the failure of the whole.
\<close>

fun sequence_results :: "(error + 'a) list \<Rightarrow> error + 'a list" where
  "sequence_results [] = Inr []"
| "sequence_results (r # rs) =
     (case r of
        Inl e \<Rightarrow> Inl e
      | Inr x \<Rightarrow> (case sequence_results rs of Inl e \<Rightarrow> Inl e | Inr xs \<Rightarrow> Inr (x # xs)))"

text \<open>
  \<open>evaluate_spec\<close> follows section 4.3 of the specification, variant by variant, with
  no accumulator: it returns the value and the steps this node emits.
  \<^item> A constant or named constant: the literal value, no step.
  \<^item> \<open>BinaryExpr\<close>: every step of the left operand but its last, wrapped with the
    original right operand; every step of the right operand but its last, wrapped
    with the left value; then the node with both values; then the terminal constant.
  \<^item> \<open>UnaryExpr\<close>: the single-branch version.
  \<^item> \<open>FunctionCallExpr\<close>: for the \<open>i\<close>-th argument, every step but its last, placed at
    position \<open>i\<close> after the values of the earlier arguments and before the original
    later arguments; then the call with every argument resolved; then the terminal
    constant.
\<close>

fun evaluate_spec :: "'v registry \<Rightarrow> 'v expr \<Rightarrow> error + ('v \<times> 'v expr list)" where
  "evaluate_spec reg (Literal v) = Inr (v, [])"
| "evaluate_spec reg (Constant v) = Inr (v, [])"
| "evaluate_spec reg (NamedConstant n v) = Inr (v, [])"
| "evaluate_spec reg (BinaryExpr l op r) =
     (case evaluate_spec reg l of
        Inl e \<Rightarrow> Inl e
      | Inr (lv, lsteps) \<Rightarrow>
          (case evaluate_spec reg r of
             Inl e \<Rightarrow> Inl e
           | Inr (rv, rsteps) \<Rightarrow>
               (case bin_function reg op lv rv of
                  Inl e \<Rightarrow> Inl e
                | Inr c \<Rightarrow>
                    Inr (c, map (\<lambda>s. BinaryExpr s op r) (butlast lsteps)
                          @ map (\<lambda>s. BinaryExpr (Literal lv) op s) (butlast rsteps)
                          @ [BinaryExpr (Literal lv) op (Literal rv), Constant c]))))"
| "evaluate_spec reg (UnaryExpr op x) =
     (case evaluate_spec reg x of
        Inl e \<Rightarrow> Inl e
      | Inr (xv, xsteps) \<Rightarrow>
          (case un_function reg op xv of
             Inl e \<Rightarrow> Inl e
           | Inr c \<Rightarrow>
               Inr (c, map (\<lambda>s. UnaryExpr op s) (butlast xsteps)
                     @ [UnaryExpr op (Literal xv), Constant c])))"
| "evaluate_spec reg (FunctionCallExpr f args) =
     (case sequence_results (map (evaluate_spec reg) args) of
        Inl e \<Rightarrow> Inl e
      | Inr rs \<Rightarrow>
          (case fn_function reg f (map fst rs) of
             Inl e \<Rightarrow> Inl e
           | Inr c \<Rightarrow>
               Inr (c, concat (map (\<lambda>i. map (\<lambda>s. FunctionCallExpr f
                                         (map Literal (take i (map fst rs)) @ [s] @ drop (Suc i) args))
                                       (butlast (snd (rs ! i))))
                                [0..<length args])
                     @ [FunctionCallExpr f (map Literal (map fst rs)), Constant c])))"

text \<open>What a call of \<open>calculate\<close> on the list \<open>steps\<close> returns when the node emits \<open>tr\<close>.\<close>

definition extend_trace :: "'s list \<Rightarrow> error + ('a \<times> 's list) \<Rightarrow> error + ('a \<times> 's list)" where
  "extend_trace steps r = (case r of Inl e \<Rightarrow> Inl e | Inr (v, tr) \<Rightarrow> Inr (v, steps @ tr))"

text \<open>
  The steps the argument loop has still to emit, when \<open>args\<close> are the values found so
  far and \<open>rs\<close> the results of the arguments not yet visited.
\<close>

definition args_trace ::
  "func \<Rightarrow> 'v expr list \<Rightarrow> 'v list \<Rightarrow> ('v \<times> 'v expr list) list \<Rightarrow> 'v expr list" where
  "args_trace f all_args args rs =
     concat (map (\<lambda>j. map (\<lambda>s. FunctionCallExpr f
                         (map Literal (args @ take j (map fst rs)) @ [s]
                            @ drop (length args + j + 1) all_args))
                       (butlast (snd (rs ! j))))
              [0..<length rs])"

section \<open>Rendering\<close>

text \<open>
  Modelled from the spec: \<^verbatim>\<open>api.stringify\<close>, which is not in the three files. Section 4.1:
  it "renders each variant with its registered display token, parenthesizing
  sub-expressions when \<open>add_brackets\<close> is requested, preserving the structural
  left-to-right operand order". The layout (one space on each side of a binary token, the
  outermost expression without parentheses, a leaf never parenthesized) is the one of the
  renderings section 8 shows: \<^verbatim>\<open>2 + 3\<close>, \<^verbatim>\<open>(1 + 2) * 4\<close>, \<^verbatim>\<open>3 * 4\<close>.
\<close>

fun is_leaf :: "'v expr \<Rightarrow> bool" where
  "is_leaf (Literal v) = True"
| "is_leaf (Constant v) = True"
| "is_leaf (NamedConstant n v) = True"
| "is_leaf e = False"

definition bracket :: "bool \<Rightarrow> bool \<Rightarrow> string \<Rightarrow> string" where
  "bracket add_brackets leaf s = (if add_brackets \<and> \<not> leaf then ''('' @ s @ '')'' else s)"

fun join_with :: "string \<Rightarrow> string list \<Rightarrow> string" where
  "join_with sep [] = []"
| "join_with sep [s] = s"
| "join_with sep (s # t # ss) = s @ sep @ join_with sep (t # ss)"

fun stringify :: "'v registry \<Rightarrow> bool \<Rightarrow> 'v expr \<Rightarrow> string" where
  "stringify reg add_brackets (Literal v) = render reg v"
| "stringify reg add_brackets (Constant v) = render reg v"
| "stringify reg add_brackets (NamedConstant n v) = n"
| "stringify reg add_brackets (BinaryExpr l op r) =
     bracket add_brackets (is_leaf l) (stringify reg add_brackets l)
       @ '' '' @ bin_symbol reg op @ '' ''
       @ bracket add_brackets (is_leaf r) (stringify reg add_brackets r)"
| "stringify reg add_brackets (UnaryExpr op x) =
     un_symbol reg op @ bracket add_brackets (is_leaf x) (stringify reg add_brackets x)"
| "stringify reg add_brackets (FunctionCallExpr f args) =
     fn_symbol reg f @ ''('' @ join_with '', '' (map (stringify reg add_brackets) args) @ '')''"

text \<open>Python's \<^verbatim>\<open>str\<close> on an integer: decimal digits, a minus sign when negative.\<close>

definition digit_char :: "nat \<Rightarrow> char" where
  "digit_char k = char_of (k + 48)"

function decimal :: "nat \<Rightarrow> string \<Rightarrow> string" where
  "decimal n acc =
     (let acc1 = digit_char (n mod 10) # acc
      in if n div 10 = 0 then acc1 else decimal (n div 10) acc1)"
  by pat_completeness auto
termination
  by (relation "measure fst") auto

declare decimal.simps [simp del]

definition str_int :: "int \<Rightarrow> string" where
  "str_int i = (if i < 0 then CHR ''-'' # decimal (nat (- i)) [] else decimal (nat i) [])"

text \<open>
  A registry over Python's integers, for running the evaluator on examples: the three
  ring operators and the sign operators with their usual meaning and tokens, \<^verbatim>\<open>max\<close> and
  \<^verbatim>\<open>min\<close> on a non-empty argument list. Every other rule raises.
\<close>

definition example_registry :: "int registry" where
  "example_registry =
     \<lparr> bin_function = (\<lambda>op a b. case op of
           ADD_B \<Rightarrow> Inr (a + b) | SUB_B \<Rightarrow> Inr (a - b) | MUL_B \<Rightarrow> Inr (a * b)
         | _ \<Rightarrow> Inl (Raised ''unsupported'')),
       un_function = (\<lambda>op a. case op of NEG_U \<Rightarrow> Inr (- a) | POS_U \<Rightarrow> Inr a),
       fn_function = (\<lambda>f xs. case f of
           MAX_F \<Rightarrow> (case xs of [] \<Rightarrow> Inl (Raised ''TypeError'')
                      | y # ys \<Rightarrow> Inr (fold max ys y))
         | MIN_F \<Rightarrow> (case xs of [] \<Rightarrow> Inl (Raised ''TypeError'')
                      | y # ys \<Rightarrow> Inr (fold min ys y))
         | _ \<Rightarrow> Inl (Raised ''unsupported'')),
       bin_symbol = (\<lambda>op. case op of
           ADD_B \<Rightarrow> ''+'' | SUB_B \<Rightarrow> ''-'' | MUL_B \<Rightarrow> ''*''
         | DIV_B \<Rightarrow> ''/'' | MOD_B \<Rightarrow> ''%'' | POW_B \<Rightarrow> ''**''),
       un_symbol = (\<lambda>op. case op of NEG_U \<Rightarrow> ''-'' | POS_U \<Rightarrow> ''+''),
       fn_symbol = (\<lambda>f. case f of
           SIN_F \<Rightarrow> ''sin'' | COS_F \<Rightarrow> ''cos'' | TAN_F \<Rightarrow> ''tan'' | SQRT_F \<Rightarrow> ''sqrt''
         | LOG_F \<Rightarrow> ''log'' | MAX_F \<Rightarrow> ''max'' | MIN_F \<Rightarrow> ''min'' | POW_F \<Rightarrow> ''pow''
         | RAND_F \<Rightarrow> ''rand''),
       render = str_int \<rparr>"

section \<open>Messages\<close>

type_synonym bytes = string

datatype status = STATUS_OK | STATUS_CLIENT_ERROR | STATUS_SERVER_ERROR

text \<open>
  \<^verbatim>\<open>api.CalculatorHeader\<close>, with the fields the three programs read. \<open>cache_control\<close> and
  \<open>unix_time_stamp\<close> are Python integers.
\<close>

record header =
  is_request :: bool
  status_code :: status
  data :: bytes
  show_steps :: bool
  cache_result :: bool
  cache_control :: int
  unix_time_stamp :: int

text \<open>
  The wire codec and the payload codecs of \<^verbatim>\<open>api\<close> are parameters: \<open>unpack\<close> and
  \<open>data_to_expression\<close> may raise; \<open>result_data\<close> and \<open>error_data\<close> are the payloads that
  \<^verbatim>\<open>from_result\<close> and \<^verbatim>\<open>from_error\<close> encode.
\<close>

record 'v codec =
  unpack :: "bytes \<Rightarrow> error + header"
  pack :: "header \<Rightarrow> bytes"
  data_to_expression :: "header \<Rightarrow> error + 'v expr"
  result_data :: "'v \<Rightarrow> string list \<Rightarrow> bytes"
  error_data :: "error \<Rightarrow> bytes"

text \<open>
  Modelled from the spec: \<^verbatim>\<open>api.CalculatorHeader.MAX_CACHE_CONTROL\<close>, the "reserved maximum
  sentinel" of \<open>cache_control\<close>. Its value is the one \<^verbatim>\<open>server.py\<close> and \<^verbatim>\<open>client.py\<close> write
  out as the maximum, \<^verbatim>\<open>2 ** 16 - 1\<close>.
\<close>

definition MAX_CACHE_CONTROL :: int where
  "MAX_CACHE_CONTROL = 2 ^ 16 - 1"

text \<open>
  Modelled from the spec: the constructors \<^verbatim>\<open>from_response\<close>, \<^verbatim>\<open>from_result\<close> and
  \<^verbatim>\<open>from_error\<close> of \<^verbatim>\<open>api.CalculatorHeader\<close>, which are not in the three files. Each builds
  a response message (section 3: \<open>is_request\<close> tells request from response) that carries
  the arguments of the call in the fields of the same name (\<^verbatim>\<open>client.py\<close> passes them to
  \<^verbatim>\<open>from_response\<close> by keyword), and whose \<open>unix_time_stamp\<close> is "set once when a response
  is produced": \<open>now\<close> is the clock at that moment. The \<open>show_steps\<close> field of a response
  built by \<^verbatim>\<open>from_result\<close> or \<^verbatim>\<open>from_error\<close> is not described; no property below reads it.
\<close>

definition from_response :: "bytes \<Rightarrow> status \<Rightarrow> bool \<Rightarrow> bool \<Rightarrow> int \<Rightarrow> int \<Rightarrow> header" where
  "from_response d st steps_flag cr cc now =
     \<lparr> is_request = False, status_code = st, data = d, show_steps = steps_flag,
       cache_result = cr, cache_control = cc, unix_time_stamp = now \<rparr>"

definition from_result ::
  "('v, 'x) codec_scheme \<Rightarrow> 'v \<Rightarrow> string list \<Rightarrow> bool \<Rightarrow> int \<Rightarrow> int \<Rightarrow> header" where
  "from_result cdc result steps cr cc now =
     from_response (result_data cdc result steps) STATUS_OK (steps \<noteq> []) cr cc now"

definition from_error ::
  "('v, 'x) codec_scheme \<Rightarrow> error \<Rightarrow> status \<Rightarrow> bool \<Rightarrow> int \<Rightarrow> int \<Rightarrow> header" where
  "from_error cdc e st cr cc now = from_response (error_data cdc e) st False cr cc now"

section \<open>The evaluator server (\<^verbatim>\<open>server.py\<close>)\<close>

definition CACHE_POLICY :: bool where
  "CACHE_POLICY = True"

definition CACHE_CONTROL :: int where
  "CACHE_CONTROL = 2 ^ 16 - 1"

text \<open>
  \<^verbatim>\<open>process_request\<close> of \<^verbatim>\<open>server.py\<close>. Everything raised inside the \<^verbatim>\<open>try\<close> becomes a
  \<open>CLIENT_ERROR\<close> response. The evaluator is called on a list created by this call
  (\<^verbatim>\<open>result, steps = None, []\<close>).
\<close>

definition server_process_request ::
  "'v registry \<Rightarrow> 'v codec \<Rightarrow> int \<Rightarrow> header \<Rightarrow> header" where
  "server_process_request reg cdc now request =
     (case (if is_request request
            then (case data_to_expression cdc request of
                    Inl e \<Rightarrow> Inl e
                  | Inr expr \<Rightarrow> calculate reg expr [])
            else Inl TypeError) of
        Inl e \<Rightarrow> from_error cdc e STATUS_CLIENT_ERROR CACHE_POLICY CACHE_CONTROL now
      | Inr (result, steps) \<Rightarrow>
          from_result cdc result
            (if show_steps request then map (stringify reg True) steps else [])
            CACHE_POLICY CACHE_CONTROL now)"

text \<open>
  One turn of the \<^verbatim>\<open>while True\<close> loop of \<^verbatim>\<open>client_handler\<close> in \<^verbatim>\<open>server.py\<close>. What the
  sockets do is given from outside: what \<^verbatim>\<open>recv\<close> yields, the clock, whether the
  \<^verbatim>\<open>sendall\<close> of the \<^verbatim>\<open>try\<close> block succeeds and whether the \<^verbatim>\<open>sendall\<close> of the
  \<^verbatim>\<open>except\<close> block succeeds. The turn returns whether the loop goes on, and the
  responses handed to \<^verbatim>\<open>sendall\<close>, in order.
\<close>

datatype received = ReadRaised | Read bytes

record server_io =
  recv :: received
  clock :: int
  send_ok :: bool
  error_send_ok :: bool

datatype control = Continue | Break | Crashed

datatype sent = Sent header | SendFailed header

fun sent_header :: "sent \<Rightarrow> header" where
  "sent_header (Sent h) = h"
| "sent_header (SendFailed h) = h"

text \<open>The handler \<^verbatim>\<open>except Exception as e\<close> of the loop (lines 149 to 158).\<close>

definition server_unexpected ::
  "'v codec \<Rightarrow> server_io \<Rightarrow> error \<Rightarrow> sent list \<Rightarrow> control \<times> sent list" where
  "server_unexpected cdc io e out =
     (let error_response =
            from_error cdc e STATUS_SERVER_ERROR CACHE_POLICY CACHE_CONTROL (clock io)
      in if error_send_ok io then (Continue, out @ [Sent error_response])
         else (Break, out @ [SendFailed error_response]))"

text \<open>What the loop does with a message that \<^verbatim>\<open>unpack\<close> has decoded (lines 135 to 147).\<close>

definition server_dispatch ::
  "'v registry \<Rightarrow> 'v codec \<Rightarrow> server_io \<Rightarrow> header \<Rightarrow> control \<times> sent list" where
  "server_dispatch reg cdc io request =
     (if \<not> is_request request \<and> data request = ''terminate'' then (Break, [])
      else let response = server_process_request reg cdc (clock io) request
           in if send_ok io then (Continue, [Sent response])
              else server_unexpected cdc io (Raised ''OSError'') [SendFailed response])"

definition server_iteration ::
  "'v registry \<Rightarrow> 'v codec \<Rightarrow> server_io \<Rightarrow> control \<times> sent list" where
  "server_iteration reg cdc io =
     (case recv io of
        ReadRaised \<Rightarrow> server_unexpected cdc io (Raised ''OSError'') []
      | Read d \<Rightarrow>
          if d = [] then (Break, [])
          else (case unpack cdc d of
                  Inl e \<Rightarrow>
                    let error_response =
                          from_error cdc e STATUS_CLIENT_ERROR CACHE_POLICY CACHE_CONTROL (clock io)
                    in if send_ok io then (Continue, [Sent error_response])
                       else server_unexpected cdc io (Raised ''OSError'')
                              [SendFailed error_response]
                | Inr request \<Rightarrow> server_dispatch reg cdc io request))"

text \<open>
  The loop on the successive states of the sockets. It stops at the first turn that does
  not continue.
\<close>

fun server_client_handler ::
  "'v registry \<Rightarrow> 'v codec \<Rightarrow> server_io list \<Rightarrow> sent list" where
  "server_client_handler reg cdc [] = []"
| "server_client_handler reg cdc (io # ios) =
     (case server_iteration reg cdc io of
        (Continue, out) \<Rightarrow> out @ server_client_handler reg cdc ios
      | (_, out) \<Rightarrow> out)"

text \<open>
  The message \<^verbatim>\<open>client.py\<close> sends when the user types \<^verbatim>\<open>exit\<close> (lines 81 to 87), before it
  is packed.
\<close>

definition termination_request :: "int \<Rightarrow> header" where
  "termination_request now = from_response ''EXIT'' STATUS_OK False False 0 now"

section \<open>The caching intermediary (\<^verbatim>\<open>proxy.py\<close>)\<close>

text \<open>The module-level dictionary \<^verbatim>\<open>cache\<close>, keyed by \<^verbatim>\<open>(data, show_steps)\<close>.\<close>

type_synonym cache = "bytes \<times> bool \<Rightarrow> header option"

definition INDEFINITE :: int where
  "INDEFINITE = MAX_CACHE_CONTROL"

text \<open>
  A remaining window is an integer, or \<^verbatim>\<open>math.inf\<close> when the cache-control is the sentinel:
  \<^verbatim>\<open>math.inf - age\<close> is \<^verbatim>\<open>math.inf\<close>, and \<^verbatim>\<open>math.inf > 0\<close>.
\<close>

datatype remaining = Finite int | Infinite

text \<open>
  \<^verbatim>\<open>cc if cc != INDEFINITE else math.inf\<close>, minus \<open>age\<close>.
\<close>

definition time_remaining :: "int \<Rightarrow> int \<Rightarrow> remaining" where
  "time_remaining cc age = (if cc \<noteq> INDEFINITE then Finite (cc - age) else Infinite)"

fun positive :: "remaining \<Rightarrow> bool" where
  "positive (Finite r) = (0 < r)"
| "positive Infinite = True"

text \<open>
  What the origin does during one exchange on a connected socket: \<^verbatim>\<open>sendall\<close> raises,
  \<^verbatim>\<open>recv\<close> raises, or \<^verbatim>\<open>recv\<close> returns bytes. For \<^verbatim>\<open>process_request\<close>, which connects
  for each fetch, the connection may be refused first.
\<close>

datatype exchange = SendRaised | RecvRaised | Replied bytes

datatype connection = ConnectionRefused | Connected exchange

record fetch_io =
  clock_lookup :: int
  origin :: connection
  clock_fetch :: int

text \<open>
  The tuple \<^verbatim>\<open>process_request\<close> returns: the response, the two remaining windows (\<open>None\<close>
  where Python has \<^verbatim>\<open>None\<close>), whether it came from the cache, whether a stored entry was
  stale, whether the response was stored.
\<close>

type_synonym outcome = "header \<times> remaining option \<times> remaining option \<times> bool \<times> bool \<times> bool"

text \<open>
  \<^verbatim>\<open>process_request\<close> of \<^verbatim>\<open>proxy.py\<close>. It returns the tuple or the exception raised, the
  cache after the call, and the messages \<^verbatim>\<open>sendall\<close> delivered to the origin. First the
  lookup (lines 29 to 41), which gives the stored entry when it is fresh, or else whether
  an entry was found stale.
\<close>

definition lookup_fresh :: "cache \<Rightarrow> int \<Rightarrow> header \<Rightarrow> outcome + bool" where
  "lookup_fresh cache now request =
     (case cache (data request, show_steps request) of
        None \<Rightarrow> Inr False
      | Some response \<Rightarrow>
          if cache_control request \<noteq> 0 then
            (let age = now - unix_time_stamp response;
                 server_time_remaining = time_remaining (cache_control response) age;
                 client_time_remaining = time_remaining (cache_control request) age
             in if positive server_time_remaining \<and> positive client_time_remaining
                then Inl (response, Some server_time_remaining, Some client_time_remaining,
                          True, False, False)
                else Inr True)
          else Inr False)"

definition proxy_process_request ::
  "'v codec \<Rightarrow> cache \<Rightarrow> fetch_io \<Rightarrow> header \<Rightarrow> (error + outcome) \<times> cache \<times> bytes list" where
  "proxy_process_request cdc cache io request =
     (if \<not> is_request request then (Inl TypeError, cache, [])
      else case lookup_fresh cache (clock_lookup io) request of
        Inl hit \<Rightarrow> (Inr hit, cache, [])
      | Inr was_stale \<Rightarrow>
          (case origin io of
             ConnectionRefused \<Rightarrow> (Inl CalculatorServerError, cache, [])
           | Connected SendRaised \<Rightarrow> (Inl (Raised ''OSError''), cache, [])
           | Connected RecvRaised \<Rightarrow> (Inl (Raised ''OSError''), cache, [pack cdc request])
           | Connected (Replied reply) \<Rightarrow>
               (case unpack cdc reply of
                  Inl e \<Rightarrow> (Inl CalculatorClientError, cache, [pack cdc request])
                | Inr response \<Rightarrow>
                    if is_request response then (Inl TypeError, cache, [pack cdc request])
                    else
                      let age = clock_fetch io - unix_time_stamp response;
                          server_time_remaining = time_remaining (cache_control response) age;
                          client_time_remaining = time_remaining (cache_control request) age
                      in if cache_result request \<and> cache_result response \<and>
                            (positive server_time_remaining \<and> positive client_time_remaining)
                         then (Inr (response, Some server_time_remaining,
                                    Some client_time_remaining, False, was_stale, True),
                               cache((data request, show_steps request) \<mapsto> response),
                               [pack cdc request])
                         else (Inr (response, Some server_time_remaining,
                                    Some client_time_remaining, False, was_stale, False),
                               cache, [pack cdc request]))))"

text \<open>
  One turn of the loop of \<^verbatim>\<open>client_handler\<close> in \<^verbatim>\<open>proxy.py\<close>, on the connection to the
  origin that the handler opened when the requester connected. From outside: what \<^verbatim>\<open>recv\<close>
  on the requester's socket yields, the clock at the lookup, what the origin does if it
  is asked, the clock when an error response is built, and whether \<^verbatim>\<open>sendall\<close> on the
  requester's socket succeeds, in the \<^verbatim>\<open>try\<close> block and in the \<^verbatim>\<open>except\<close> block. The turn
  returns whether the loop goes on, the cache, and the messages delivered, in order.
\<close>

record proxy_io =
  client_recv :: received
  lookup_clock :: int
  origin_exchange :: exchange
  error_clock :: int
  client_send_ok :: bool
  client_error_send_ok :: bool

datatype event = ToOrigin bytes | ToClient bytes

fun to_origin :: "event list \<Rightarrow> bytes list" where
  "to_origin [] = []"
| "to_origin (ToOrigin b # evs) = b # to_origin evs"
| "to_origin (ToClient b # evs) = to_origin evs"

fun to_client :: "event list \<Rightarrow> bytes list" where
  "to_client [] = []"
| "to_client (ToOrigin b # evs) = to_client evs"
| "to_client (ToClient b # evs) = b # to_client evs"

text \<open>
  The handler \<^verbatim>\<open>except Exception as e\<close> of the loop (lines 174 to 178): it is inside the
  \<^verbatim>\<open>while\<close>, so the loop goes on after it; when its own \<^verbatim>\<open>sendall\<close> raises, the exception
  leaves the function.
\<close>

definition internal_proxy_error :: "'v codec \<Rightarrow> int \<Rightarrow> header" where
  "internal_proxy_error cdc now =
     from_error cdc CalculatorServerError STATUS_SERVER_ERROR False 0 now"

definition proxy_except ::
  "'v codec \<Rightarrow> proxy_io \<Rightarrow> cache \<Rightarrow> event list \<Rightarrow> control \<times> cache \<times> event list" where
  "proxy_except cdc io cache evs =
     (if client_error_send_ok io
      then (Continue, cache, evs @ [ToClient (pack cdc (internal_proxy_error cdc (error_clock io)))])
      else (Crashed, cache, evs))"

text \<open>Lines 143 to 157: the stored entry, when there is one and both windows are open.\<close>

definition handler_fresh :: "cache \<Rightarrow> int \<Rightarrow> header \<Rightarrow> header option" where
  "handler_fresh cache now request =
     (case cache (data request, show_steps request) of
        None \<Rightarrow> None
      | Some response \<Rightarrow>
          let age = now - unix_time_stamp response;
              server_time_remaining = time_remaining (cache_control response) age;
              client_time_remaining = time_remaining (cache_control request) age
          in if positive server_time_remaining \<and> positive client_time_remaining
             then Some response else None)"

text \<open>Lines 159 to 172: the request goes to the origin.\<close>

definition proxy_forward ::
  "'v codec \<Rightarrow> cache \<Rightarrow> proxy_io \<Rightarrow> bytes \<Rightarrow> header \<Rightarrow> control \<times> cache \<times> event list" where
  "proxy_forward cdc cache io d request =
     (case origin_exchange io of
        SendRaised \<Rightarrow> proxy_except cdc io cache []
      | RecvRaised \<Rightarrow> proxy_except cdc io cache [ToOrigin d]
      | Replied response_data \<Rightarrow>
          (case unpack cdc response_data of
             Inl e \<Rightarrow> proxy_except cdc io cache [ToOrigin d]
           | Inr response \<Rightarrow>
               let cache1 = (if cache_result request \<and> cache_result response
                             then cache((data request, show_steps request) \<mapsto> response)
                             else cache)
               in if client_send_ok io
                  then (Continue, cache1, [ToOrigin d, ToClient response_data])
                  else proxy_except cdc io cache1 [ToOrigin d]))"

text \<open>What the loop does with a message that \<^verbatim>\<open>unpack\<close> has decoded (lines 132 to 172).\<close>

definition proxy_dispatch ::
  "'v codec \<Rightarrow> cache \<Rightarrow> proxy_io \<Rightarrow> bytes \<Rightarrow> header \<Rightarrow> control \<times> cache \<times> event list" where
  "proxy_dispatch cdc cache io d request =
     (if data request = ''EXIT'' then
        (case origin_exchange io of
           SendRaised \<Rightarrow> proxy_except cdc io cache []
         | RecvRaised \<Rightarrow> proxy_except cdc io cache [ToOrigin d]
         | Replied response_data \<Rightarrow>
             if client_send_ok io then (Break, cache, [ToOrigin d, ToClient response_data])
             else proxy_except cdc io cache [ToOrigin d])
      else case handler_fresh cache (lookup_clock io) request of
        Some response \<Rightarrow>
          if client_send_ok io then (Continue, cache, [ToClient (pack cdc response)])
          else proxy_except cdc io cache []
      | None \<Rightarrow> proxy_forward cdc cache io d request)"

definition proxy_iteration ::
  "'v codec \<Rightarrow> cache \<Rightarrow> proxy_io \<Rightarrow> control \<times> cache \<times> event list" where
  "proxy_iteration cdc cache io =
     (case client_recv io of
        ReadRaised \<Rightarrow> (Crashed, cache, [])
      | Read d \<Rightarrow>
          if d = [] then (Break, cache, [])
          else (case unpack cdc d of
                  Inl e \<Rightarrow> proxy_except cdc io cache []
                | Inr request \<Rightarrow> proxy_dispatch cdc cache io d request))"

fun proxy_loop :: "'v codec \<Rightarrow> cache \<Rightarrow> proxy_io list \<Rightarrow> cache \<times> event list" where
  "proxy_loop cdc cache [] = (cache, [])"
| "proxy_loop cdc cache (io # ios) =
     (case proxy_iteration cdc cache io of
        (Continue, cache1, evs) \<Rightarrow>
          (case proxy_loop cdc cache1 ios of (cache2, evs2) \<Rightarrow> (cache2, evs @ evs2))
      | (_, cache1, evs) \<Rightarrow> (cache1, evs))"

text \<open>
  \<^verbatim>\<open>client_handler\<close> of \<^verbatim>\<open>proxy.py\<close>: it connects to the origin first; when the connection
  is refused it prints a line and returns (lines 113 to 118).
\<close>

definition proxy_client_handler ::
  "'v codec \<Rightarrow> cache \<Rightarrow> bool \<Rightarrow> proxy_io list \<Rightarrow> cache \<times> event list" where
  "proxy_client_handler cdc cache connected ios =
     (if \<not> connected then (cache, []) else proxy_loop cdc cache ios)"

text \<open>
  Freshness as section 4.4 of the specification words it: with \<open>age = now - entry.unix_time_stamp\<close>,
  the server's remaining window is the entry's cache-control (the maximum meaning
  \<open>+\<infinity>\<close>) minus \<open>age\<close>, the client's is the request's cache-control (the maximum meaning
  \<open>+\<infinity>\<close>) minus \<open>age\<close>, and the entry is fresh when both are \<open>> 0\<close>. An infinite window
  minus any age is \<open>> 0\<close>.
\<close>

definition fresh_spec :: "header \<Rightarrow> header \<Rightarrow> int \<Rightarrow> bool" where
  "fresh_spec entry request now =
     (let age = now - unix_time_stamp entry
      in (cache_control entry = MAX_CACHE_CONTROL \<or> 0 < cache_control entry - age) \<and>
         (cache_control request = MAX_CACHE_CONTROL \<or> 0 < cache_control request - age))"

section \<open>Fixtures for running the programs\<close>

text \<open>
  A codec over a finite table of frames: \<open>unpack\<close> looks the frame up and raises on any
  other byte string, \<open>pack\<close> looks the message up.
\<close>

definition table_codec :: "(bytes \<times> header) list \<Rightarrow> int codec" where
  "table_codec table =
     \<lparr> unpack = (\<lambda>d. case map_of table d of
                        None \<Rightarrow> Inl (Raised ''struct.error'')
                      | Some h \<Rightarrow> Inr h),
       pack = (\<lambda>h. case find (\<lambda>entry. snd entry = h) table of
                      None \<Rightarrow> ''?''
                    | Some entry \<Rightarrow> fst entry),
       data_to_expression = (\<lambda>h. if data h = ''2+3''
                                  then Inr (BinaryExpr (Constant 2) ADD_B (Constant 3))
                                  else Inl (Raised ''UnpicklingError'')),
       result_data = (\<lambda>v steps. str_int v),
       error_data = (\<lambda>e. ''error'') \<rparr>"

definition example_request :: header where
  "example_request =
     \<lparr> is_request = True, status_code = STATUS_OK, data = ''2+3'', show_steps = True,
       cache_result = True, cache_control = 200, unix_time_stamp = 0 \<rparr>"

definition reload_request :: header where
  "reload_request = example_request \<lparr> cache_control := 0 \<rparr>"

definition example_response :: "bool \<Rightarrow> int \<Rightarrow> int \<Rightarrow> header" where
  "example_response cr cc ts = from_response ''5'' STATUS_OK True cr cc ts"

definition example_codec :: "int codec" where
  "example_codec =
     table_codec
       [(''Q'', example_request), (''Q0'', reload_request),
        (''R'', example_response True 100 1000),
        (''N'', example_response False 100 1000),
        (''X'', termination_request 0)]"

definition example_server_io :: "bytes \<Rightarrow> server_io" where
  "example_server_io d = \<lparr> recv = Read d, clock = 1000, send_ok = True, error_send_ok = True \<rparr>"

definition example_proxy_io :: "bytes \<Rightarrow> int \<Rightarrow> exchange \<Rightarrow> proxy_io" where
  "example_proxy_io d now ex =
     \<lparr> client_recv = Read d, lookup_clock = now, origin_exchange = ex, error_clock = now,
       client_send_ok = True, client_error_send_ok = True \<rparr>"

definition example_fetch_io :: "int \<Rightarrow> connection \<Rightarrow> fetch_io" where
  "example_fetch_io now conn = \<lparr> clock_lookup = now, origin = conn, clock_fetch = now \<rparr>"

text \<open>A cache that holds one entry, stored for the key of \<open>example_request\<close>.\<close>

definition example_cache :: "header \<Rightarrow> cache" where
  "example_cache entry = Map.empty((''2+3'', True) \<mapsto> entry)"

section \<open>The evaluator emits the prescribed trace\<close>

text \<open>
  \<^verbatim>\<open>calculate\<close> starts with \<^verbatim>\<open>expr = api.type_fallback(expression)\<close>; the equations of
  \<open>calculate\<close> have that step built in.
\<close>

lemma calculate_type_fallback:
  "calculate reg (type_fallback e) steps = calculate reg e steps"
  by (cases e) simp_all

lemma append_each_map: "append_each f steps xs = steps @ map f xs"
  unfolding append_each_def by (induction xs arbitrary: steps) simp_all

lemma args_trace_Nil: "args_trace f all_args args [] = []"
  by (simp add: args_trace_def)

lemma args_trace_Cons:
  "args_trace f all_args args ((a, tr) # rs) =
     map (\<lambda>s. FunctionCallExpr f (map Literal args @ [s] @ drop (length args + 1) all_args))
       (butlast tr)
     @ args_trace f all_args (args @ [a]) rs"
proof -
  have "[0..<length ((a, tr) # rs)] = 0 # map Suc [0..<length rs]"
    by (simp add: upt_conv_Cons map_Suc_upt del: upt_Suc)
  then show ?thesis
    unfolding args_trace_def by (simp add: comp_def del: upt_Suc)
qed

lemma length_sequence_results: "sequence_results xs = Inr ys \<Longrightarrow> length ys = length xs"
  by (induction xs arbitrary: ys) (auto split: sum.splits)

lemma calculate_refines:
  "calculate reg e steps = extend_trace steps (evaluate_spec reg e)"
  "calculate_args reg f all_args rest args steps =
     (case sequence_results (map (evaluate_spec reg) rest) of
        Inl e \<Rightarrow> Inl e
      | Inr rs \<Rightarrow> Inr (args @ map fst rs, steps @ args_trace f all_args args rs))"
proof (induction reg e steps and reg f all_args rest args steps
    rule: calculate_calculate_args.induct)
  case (4 reg l op r steps)
  then show ?case
    by (auto simp: extend_trace_def append_each_map split: sum.splits prod.splits)
next
  case (5 reg op x steps)
  then show ?case
    by (auto simp: extend_trace_def append_each_map split: sum.splits prod.splits)
next
  case (6 reg f all_args steps)
  then show ?case
    by (auto simp: extend_trace_def append_each_map args_trace_def
        dest!: length_sequence_results split: sum.splits prod.splits)
next
  case (8 reg f all_args arg rest args steps)
  then show ?case
    by (auto simp: extend_trace_def append_each_map args_trace_Cons args_trace_Nil
        split: sum.splits prod.splits)
qed (simp_all add: extend_trace_def args_trace_Nil)

lemma str_int_digits: "str_int 2 = ''2''" "str_int 3 = ''3''" "str_int 5 = ''5''"
  by code_simp+

text \<open>
  Claim C1. For every expression tree and every list \<open>steps\<close> it is called on, \<open>calculate\<close>
  returns that list followed by exactly the steps section 4.3 prescribes for the
  variant (\<open>evaluate_spec\<close>), with the value of the terminal constant, and fails exactly when
  an evaluation rule fails, at the first failure from the left. In particular, whenever
  the registry's \<open>ADD\<close> rule maps 2 and 3 to 5, its token is \<open>+\<close> and the three numbers
  render as their decimal digits, \<open>BinaryExpr(Constant(2), ADD, Constant(3))\<close> evaluates to 5
  with two steps, rendered \<open>2 + 3\<close> and \<open>5\<close>.
\<close>

theorem calculate_step_sequence:
  "calculate reg e steps = extend_trace steps (evaluate_spec reg e) \<and>
   (bin_function ireg ADD_B 2 3 = Inr (5::int) \<and> bin_symbol ireg ADD_B = ''+'' \<and>
    render ireg 2 = ''2'' \<and> render ireg 3 = ''3'' \<and> render ireg 5 = ''5'' \<longrightarrow>
      calculate ireg (BinaryExpr (Constant 2) ADD_B (Constant 3)) [] =
        Inr (5, [BinaryExpr (Literal 2) ADD_B (Literal 3), Constant 5]) \<and>
      map (stringify ireg True) [BinaryExpr (Literal 2) ADD_B (Literal 3), Constant 5] =
        [''2 + 3'', ''5''])"
proof (intro conjI impI)
  show "calculate reg e steps = extend_trace steps (evaluate_spec reg e)"
    by (rule calculate_refines(1))
next
  assume h: "bin_function ireg ADD_B 2 3 = Inr (5::int) \<and> bin_symbol ireg ADD_B = ''+'' \<and>
    render ireg 2 = ''2'' \<and> render ireg 3 = ''3'' \<and> render ireg 5 = ''5''"
  then show "calculate ireg (BinaryExpr (Constant 2) ADD_B (Constant 3)) [] =
        Inr (5, [BinaryExpr (Literal 2) ADD_B (Literal 3), Constant 5])"
    by (simp add: append_each_def)
  from h show "map (stringify ireg True) [BinaryExpr (Literal 2) ADD_B (Literal 3), Constant 5] =
        [''2 + 3'', ''5'']"
    by (simp add: bracket_def)
qed

theorem calculate_step_sequence_witness:
  "calculate example_registry
     (BinaryExpr (FunctionCallExpr MAX_F [Literal 2, BinaryExpr (Literal 3) MUL_B (Literal 4)])
        ADD_B (Constant 3)) [] =
   extend_trace []
     (evaluate_spec example_registry
        (BinaryExpr (FunctionCallExpr MAX_F [Literal 2, BinaryExpr (Literal 3) MUL_B (Literal 4)])
           ADD_B (Constant 3))) \<and>
   bin_function example_registry ADD_B 2 3 = Inr 5 \<and> bin_symbol example_registry ADD_B = ''+'' \<and>
   render example_registry 2 = ''2'' \<and> render example_registry 3 = ''3'' \<and>
   render example_registry 5 = ''5'' \<and>
   calculate example_registry (BinaryExpr (Constant 2) ADD_B (Constant 3)) [] =
     Inr (5, [BinaryExpr (Literal 2) ADD_B (Literal 3), Constant 5]) \<and>
   map (stringify example_registry True) [BinaryExpr (Literal 2) ADD_B (Literal 3), Constant 5] =
     [''2 + 3'', ''5'']"
  using calculate_step_sequence
    [of example_registry
      "BinaryExpr (FunctionCallExpr MAX_F [Literal 2, BinaryExpr (Literal 3) MUL_B (Literal 4)])
         ADD_B (Constant 3)" "[]" example_registry]
  by (simp add: example_registry_def str_int_digits)

text \<open>
  A call on any list returns that list followed by what a call on the empty list
  returns.
\<close>

lemma calculate_twice:
  assumes "calculate reg e [] = Inr (v, tr)"
  shows "calculate reg e steps = Inr (v, steps @ tr)"
  using assms by (auto simp: calculate_refines(1) extend_trace_def split: sum.splits)

text \<open>
  Claim C2. The claim asks that two successive top-level calls return the same value
  and steps. With the second argument omitted they do not: when the first call returns
  a non-empty trace \<open>tr\<close>, the second call on the same expression returns \<open>tr\<close> twice
  over, because both calls append to the one default list.
\<close>

theorem default_steps_shared:
  "calculate_default reg [] e = Inr (v, tr) \<Longrightarrow> tr \<noteq> [] \<Longrightarrow>
     two_default_calls reg e e = Inr ((v, tr), (v, tr @ tr)) \<and> tr @ tr \<noteq> tr"
  by (simp add: two_default_calls_def calculate_default_def calculate_twice)

theorem default_steps_shared_witness:
  "calculate_default example_registry [] (BinaryExpr (Constant 2) ADD_B (Constant 3)) =
     Inr (5, [BinaryExpr (Literal 2) ADD_B (Literal 3), Constant 5]) \<and>
   two_default_calls example_registry
     (BinaryExpr (Constant 2) ADD_B (Constant 3)) (BinaryExpr (Constant 2) ADD_B (Constant 3)) =
     Inr ((5, [BinaryExpr (Literal 2) ADD_B (Literal 3), Constant 5]),
          (5, [BinaryExpr (Literal 2) ADD_B (Literal 3), Constant 5,
               BinaryExpr (Literal 2) ADD_B (Literal 3), Constant 5]))"
  using default_steps_shared
    [of example_registry "BinaryExpr (Constant 2) ADD_B (Constant 3)" 5
      "[BinaryExpr (Literal 2) ADD_B (Literal 3), Constant 5]"]
  by (simp add: calculate_default_def example_registry_def append_each_def)


section \<open>The connection handler of the evaluator server\<close>

lemma server_policy: "CACHE_POLICY = True" "CACHE_CONTROL = 65535"
  by (simp_all add: CACHE_POLICY_def CACHE_CONTROL_def)

lemma from_error_fields:
  "is_request (from_error cdc e st cr cc now) = False"
  "status_code (from_error cdc e st cr cc now) = st"
  "cache_result (from_error cdc e st cr cc now) = cr"
  "cache_control (from_error cdc e st cr cc now) = cc"
  "unix_time_stamp (from_error cdc e st cr cc now) = now"
  by (simp_all add: from_error_def from_response_def)

lemma from_result_fields:
  "is_request (from_result cdc v steps cr cc now) = False"
  "status_code (from_result cdc v steps cr cc now) = STATUS_OK"
  "cache_result (from_result cdc v steps cr cc now) = cr"
  "cache_control (from_result cdc v steps cr cc now) = cc"
  "unix_time_stamp (from_result cdc v steps cr cc now) = now"
  by (simp_all add: from_result_def from_response_def)

lemma server_process_request_policy:
  "cache_result (server_process_request reg cdc now request) = True"
  "cache_control (server_process_request reg cdc now request) = 65535"
  by (simp_all add: server_process_request_def from_error_fields from_result_fields server_policy
      split: sum.splits prod.splits)

lemma server_unexpected_policy:
  assumes "\<forall>s \<in> set out. cache_result (sent_header s) \<and> cache_control (sent_header s) = 65535"
    and "s \<in> set (snd (server_unexpected cdc io e out))"
  shows "cache_result (sent_header s) \<and> cache_control (sent_header s) = 65535"
  using assms
  by (auto simp: server_unexpected_def Let_def from_error_fields server_policy split: if_splits)

lemma server_iteration_policy:
  assumes "s \<in> set (snd (server_iteration reg cdc io))"
  shows "cache_result (sent_header s) \<and> cache_control (sent_header s) = 65535"
proof (cases "recv io")
  case ReadRaised
  with assms show ?thesis
    by (auto simp: server_iteration_def dest: server_unexpected_policy [rotated])
next
  case (Read d)
  show ?thesis
  proof (cases "d = []")
    case True
    with Read assms show ?thesis by (simp add: server_iteration_def)
  next
    case False
    show ?thesis
    proof (cases "unpack cdc d")
      case (Inl e)
      with Read False assms show ?thesis
        by (auto simp: server_iteration_def Let_def from_error_fields server_policy
            split: if_splits dest!: server_unexpected_policy [rotated])
    next
      case (Inr request)
      with Read False assms show ?thesis
        by (auto simp: server_iteration_def server_dispatch_def Let_def
            server_process_request_policy
            split: if_splits dest!: server_unexpected_policy [rotated])
    qed
  qed
qed

lemma server_client_handler_policy:
  "s \<in> set (server_client_handler reg cdc ios) \<Longrightarrow>
     cache_result (sent_header s) \<and> cache_control (sent_header s) = 65535"
proof (induction ios)
  case Nil
  then show ?case by simp
next
  case (Cons io ios)
  obtain ctl out where it: "server_iteration reg cdc io = (ctl, out)"
    by (cases "server_iteration reg cdc io")
  have out: "\<And>x. x \<in> set out \<Longrightarrow>
      cache_result (sent_header x) \<and> cache_control (sent_header x) = 65535"
    using server_iteration_policy [of _ reg cdc io] it by simp
  from Cons.prems it have "s \<in> set out \<or> s \<in> set (server_client_handler reg cdc ios)"
    by (cases ctl) auto
  with out Cons.IH show ?case by blast
qed

lemma time_remaining_sentinel: "positive (time_remaining 65535 age)"
  by (simp add: time_remaining_def INDEFINITE_def MAX_CACHE_CONTROL_def)

text \<open>
  Claim C10. Every response the connection handler of the evaluator server hands to
  \<^verbatim>\<open>sendall\<close>, in any run of its loop (results, \<open>CLIENT_ERROR\<close> and \<open>SERVER_ERROR\<close> responses
  alike), has \<open>cache_result = True\<close> and \<open>cache_control = 2 ^ 16 - 1\<close>; so it meets the
  response-side conditions under which the intermediary stores: its \<open>cache_result\<close> holds
  and its remaining window is positive at every age.
\<close>

theorem server_responses_cacheable:
  "\<forall>s \<in> set (server_client_handler reg cdc ios).
      cache_result (sent_header s) = True \<and> cache_control (sent_header s) = 2 ^ 16 - 1 \<and>
      positive (time_remaining (cache_control (sent_header s)) age)"
proof
  fix s assume "s \<in> set (server_client_handler reg cdc ios)"
  then have "cache_result (sent_header s) \<and> cache_control (sent_header s) = 65535"
    by (rule server_client_handler_policy)
  then show "cache_result (sent_header s) = True \<and> cache_control (sent_header s) = 2 ^ 16 - 1 \<and>
      positive (time_remaining (cache_control (sent_header s)) age)"
    by (simp add: time_remaining_sentinel)
qed

lemma rejected_frame: "unpack example_codec ''zz'' = Inl (Raised ''struct.error'')"
  by (simp add: example_codec_def table_codec_def)

theorem server_responses_cacheable_witness:
  "Sent (from_error example_codec (Raised ''struct.error'') STATUS_CLIENT_ERROR True 65535 1000)
     \<in> set (server_client_handler example_registry example_codec [example_server_io ''zz'']) \<and>
   cache_result
     (from_error example_codec (Raised ''struct.error'') STATUS_CLIENT_ERROR True 65535 1000) \<and>
   cache_control
     (from_error example_codec (Raised ''struct.error'') STATUS_CLIENT_ERROR True 65535 1000)
     = 2 ^ 16 - 1 \<and>
   positive (time_remaining (cache_control
     (from_error example_codec (Raised ''struct.error'') STATUS_CLIENT_ERROR True 65535 1000)) 7)"
  using server_responses_cacheable
    [of example_registry example_codec "[example_server_io ''zz'']" 7]
  by (simp add: server_iteration_def example_server_io_def rejected_frame server_policy
      from_error_fields)

text \<open>
  Claim C9. When \<^verbatim>\<open>unpack\<close> raises on a non-empty inbound message, the first thing the
  handler hands to \<^verbatim>\<open>sendall\<close> is an error response with \<open>CLIENT_ERROR\<close> status; when that send
  succeeds the turn ends with the loop going on, and the handler goes on to the next
  read. The turn stops the loop only when that send and the send of the error report
  both fail. In general a turn stops the loop only on an empty read, on the termination
  message, or when the send of a \<open>SERVER_ERROR\<close> report fails.
\<close>

theorem decode_failure_keeps_connection:
  assumes "recv io = Read d" and "d \<noteq> []" and "unpack cdc d = Inl e"
  shows "(\<exists>out. server_iteration reg cdc io =
            (if \<not> send_ok io \<and> \<not> error_send_ok io then Break else Continue,
             (if send_ok io then Sent else SendFailed)
               (from_error cdc e STATUS_CLIENT_ERROR True (2 ^ 16 - 1) (clock io)) # out)) \<and>
         (send_ok io \<longrightarrow>
            server_iteration reg cdc io =
              (Continue, [Sent (from_error cdc e STATUS_CLIENT_ERROR True (2 ^ 16 - 1) (clock io))]) \<and>
            server_client_handler reg cdc (io # ios) =
              Sent (from_error cdc e STATUS_CLIENT_ERROR True (2 ^ 16 - 1) (clock io))
                # server_client_handler reg cdc ios) \<and>
         (fst (server_iteration reg cdc io2) \<noteq> Continue \<longrightarrow>
            recv io2 = Read [] \<or>
            (\<exists>d2 request. recv io2 = Read d2 \<and> unpack cdc d2 = Inr request \<and>
               \<not> is_request request \<and> data request = ''terminate'') \<or>
            (\<not> error_send_ok io2 \<and>
             (\<exists>h. last (snd (server_iteration reg cdc io2)) = SendFailed h \<and>
                  status_code h = STATUS_SERVER_ERROR)))"
proof (intro conjI impI)
  show "\<exists>out. server_iteration reg cdc io =
            (if \<not> send_ok io \<and> \<not> error_send_ok io then Break else Continue,
             (if send_ok io then Sent else SendFailed)
               (from_error cdc e STATUS_CLIENT_ERROR True (2 ^ 16 - 1) (clock io)) # out)"
    using assms
    by (simp add: server_iteration_def server_unexpected_def Let_def server_policy)
next
  assume "send_ok io"
  with assms show it: "server_iteration reg cdc io =
      (Continue, [Sent (from_error cdc e STATUS_CLIENT_ERROR True (2 ^ 16 - 1) (clock io))])"
    by (simp add: server_iteration_def Let_def server_policy)
  then show "server_client_handler reg cdc (io # ios) =
      Sent (from_error cdc e STATUS_CLIENT_ERROR True (2 ^ 16 - 1) (clock io))
        # server_client_handler reg cdc ios"
    by simp
next
  assume stop: "fst (server_iteration reg cdc io2) \<noteq> Continue"
  show "recv io2 = Read [] \<or>
        (\<exists>d2 request. recv io2 = Read d2 \<and> unpack cdc d2 = Inr request \<and>
           \<not> is_request request \<and> data request = ''terminate'') \<or>
        (\<not> error_send_ok io2 \<and>
         (\<exists>h. last (snd (server_iteration reg cdc io2)) = SendFailed h \<and>
              status_code h = STATUS_SERVER_ERROR))"
  proof (cases "recv io2")
    case ReadRaised
    with stop show ?thesis
      by (auto simp: server_iteration_def server_unexpected_def Let_def from_error_fields
          split: if_splits)
  next
    case (Read d2)
    show ?thesis
    proof (cases "unpack cdc d2")
      case (Inl e2)
      with Read stop show ?thesis
        by (auto simp: server_iteration_def server_unexpected_def Let_def from_error_fields
            split: if_splits)
    next
      case (Inr request)
      with Read stop show ?thesis
        by (auto simp: server_iteration_def server_dispatch_def server_unexpected_def Let_def
            from_error_fields split: if_splits)
    qed
  qed
qed

theorem decode_failure_keeps_connection_witness:
  "recv (example_server_io ''zz'') = Read ''zz'' \<and> ''zz'' \<noteq> [] \<and>
   unpack example_codec ''zz'' = Inl (Raised ''struct.error'') \<and>
   send_ok (example_server_io ''zz'') \<and>
   server_iteration example_registry example_codec (example_server_io ''zz'') =
     (Continue, [Sent (from_error example_codec (Raised ''struct.error'') STATUS_CLIENT_ERROR True
                        (2 ^ 16 - 1) 1000)]) \<and>
   server_client_handler example_registry example_codec
       [example_server_io ''zz'', example_server_io ''Q''] =
     Sent (from_error example_codec (Raised ''struct.error'') STATUS_CLIENT_ERROR True
            (2 ^ 16 - 1) 1000)
       # server_client_handler example_registry example_codec [example_server_io ''Q''] \<and>
   fst (server_iteration example_registry example_codec (example_server_io [])) \<noteq> Continue \<and>
   recv (example_server_io []) = Read []"
  using decode_failure_keeps_connection
    [of "example_server_io ''zz''" "''zz''" example_codec "Raised ''struct.error''"
      example_registry "[example_server_io ''Q'']" "example_server_io []"]
  by (simp add: rejected_frame example_server_io_def server_iteration_def)

text \<open>
  Claim C4. The claim asks that the message the client sends to terminate be recognised
  by the server as the termination signal. It is not: the client sends a response-shaped
  message with payload \<open>EXIT\<close>, the server tests for the payload \<open>terminate\<close>. The server
  answers the client's message with a \<open>CLIENT_ERROR\<close> response and its loop goes on: in
  the run below it then serves the next request on the same connection.
\<close>

theorem client_exit_not_recognised:
  "server_dispatch reg cdc (io \<lparr> send_ok := True \<rparr>) (termination_request now) =
     (Continue, [Sent (from_error cdc TypeError STATUS_CLIENT_ERROR True (2 ^ 16 - 1) (clock io))]) \<and>
   unpack example_codec ''X'' = Inr (termination_request 0) \<and>
   server_client_handler example_registry example_codec
       [example_server_io ''X'', example_server_io ''Q''] =
     [Sent (from_error example_codec TypeError STATUS_CLIENT_ERROR True (2 ^ 16 - 1) 1000),
      Sent (from_result example_codec 5 [''2 + 3'', ''5''] True (2 ^ 16 - 1) 1000)]"
proof (intro conjI)
  show "server_dispatch reg cdc (io \<lparr> send_ok := True \<rparr>) (termination_request now) =
     (Continue, [Sent (from_error cdc TypeError STATUS_CLIENT_ERROR True (2 ^ 16 - 1) (clock io))])"
    by (simp add: server_dispatch_def termination_request_def from_response_def
        server_process_request_def server_policy)
  show x: "unpack example_codec ''X'' = Inr (termination_request 0)"
    by (simp add: example_codec_def table_codec_def)
  have q: "unpack example_codec ''Q'' = Inr example_request"
    by (simp add: example_codec_def table_codec_def)
  have e: "data_to_expression example_codec example_request =
      Inr (BinaryExpr (Constant 2) ADD_B (Constant 3))"
    by (simp add: example_codec_def table_codec_def example_request_def)
  have req: "is_request example_request" "show_steps example_request"
    by (simp_all add: example_request_def)
  have p: "server_process_request example_registry example_codec 1000 example_request =
      from_result example_codec 5 [''2 + 3'', ''5''] True (2 ^ 16 - 1) 1000"
    by (simp add: server_process_request_def e req server_policy
        example_registry_def append_each_def bracket_def str_int_digits)
  have t: "server_process_request example_registry example_codec 1000 (termination_request 0) =
      from_error example_codec TypeError STATUS_CLIENT_ERROR True (2 ^ 16 - 1) 1000"
    by (simp add: server_process_request_def termination_request_def from_response_def
        server_policy)
  show "server_client_handler example_registry example_codec
       [example_server_io ''X'', example_server_io ''Q''] =
     [Sent (from_error example_codec TypeError STATUS_CLIENT_ERROR True (2 ^ 16 - 1) 1000),
      Sent (from_result example_codec 5 [''2 + 3'', ''5''] True (2 ^ 16 - 1) 1000)]"
    using p t
    by (simp add: server_iteration_def server_dispatch_def example_server_io_def x q req
        termination_request_def [of 0] from_response_def)
qed

section \<open>The caching intermediary\<close>

lemma proxy_except_cache: "fst (snd (proxy_except cdc io cache evs)) = cache"
  by (simp add: proxy_except_def)

lemma to_origin_append: "to_origin (xs @ ys) = to_origin xs @ to_origin ys"
  by (induction xs rule: to_origin.induct) simp_all

lemma to_client_append: "to_client (xs @ ys) = to_client xs @ to_client ys"
  by (induction xs rule: to_client.induct) simp_all

lemma proxy_except_to_origin:
  "to_origin (snd (snd (proxy_except cdc io cache evs))) = to_origin evs"
  by (simp add: proxy_except_def to_origin_append)

lemma proxy_forward_replied_to_origin:
  "origin_exchange io = Replied reply \<Longrightarrow>
     to_origin (snd (snd (proxy_forward cdc cache io d request))) = [d]"
  by (simp add: proxy_forward_def proxy_except_to_origin Let_def split: sum.splits)

lemma proxy_forward_no_store:
  assumes "\<And>reply response. origin_exchange io = Replied reply \<Longrightarrow>
             unpack cdc reply = Inr response \<Longrightarrow> \<not> cache_result response"
  shows "fst (snd (proxy_forward cdc cache io d request)) = cache"
  using assms
  by (auto simp: proxy_forward_def proxy_except_cache Let_def split: exchange.splits sum.splits)

lemma proxy_dispatch_no_store:
  assumes "\<And>reply response. origin_exchange io = Replied reply \<Longrightarrow>
             unpack cdc reply = Inr response \<Longrightarrow> \<not> cache_result response"
  shows "fst (snd (proxy_dispatch cdc cache io d request)) = cache"
  using proxy_forward_no_store [of io cdc cache d request] assms
  by (auto simp: proxy_dispatch_def proxy_except_cache
      split: exchange.splits option.splits)

text \<open>
  Claim C7. When the origin's reply decodes to a response whose \<open>cache_result\<close> is false,
  the cache after the exchange is the cache before it, whatever the request asks for; in
  a whole turn of the handler's loop, and in \<^verbatim>\<open>process_request\<close>.
\<close>

theorem no_store_law:
  assumes "unpack cdc reply = Inr response" and "\<not> cache_result response"
  shows "(origin_exchange io = Replied reply \<longrightarrow>
            fst (snd (proxy_iteration cdc cache io)) = cache) \<and>
         (origin fio = Connected (Replied reply) \<longrightarrow>
            fst (snd (proxy_process_request cdc cache fio request)) = cache)"
proof (intro conjI impI)
  assume ex: "origin_exchange io = Replied reply"
  have "\<And>d request. fst (snd (proxy_dispatch cdc cache io d request)) = cache"
    using assms ex by (intro proxy_dispatch_no_store) auto
  then show "fst (snd (proxy_iteration cdc cache io)) = cache"
    by (simp add: proxy_iteration_def proxy_except_cache split: received.splits sum.splits)
next
  assume "origin fio = Connected (Replied reply)"
  with assms show "fst (snd (proxy_process_request cdc cache fio request)) = cache"
    by (simp add: proxy_process_request_def Let_def split: sum.splits)
qed

lemma example_frames:
  "unpack example_codec ''Q'' = Inr example_request"
  "unpack example_codec ''Q0'' = Inr reload_request"
  "unpack example_codec ''R'' = Inr (example_response True 100 1000)"
  "unpack example_codec ''N'' = Inr (example_response False 100 1000)"
  by (simp_all add: example_codec_def table_codec_def)

lemma example_request_fields:
  "is_request example_request" "data example_request = ''2+3''" "show_steps example_request"
  "cache_result example_request" "cache_control example_request = 200"
  "is_request reload_request" "data reload_request = ''2+3''" "show_steps reload_request"
  "cache_result reload_request" "cache_control reload_request = 0"
  by (simp_all add: example_request_def reload_request_def)

lemma example_response_fields:
  "is_request (example_response cr cc ts) = False"
  "cache_result (example_response cr cc ts) = cr"
  "cache_control (example_response cr cc ts) = cc"
  "unix_time_stamp (example_response cr cc ts) = ts"
  by (simp_all add: example_response_def from_response_def)

lemma example_io_fields:
  "client_recv (example_proxy_io d now ex) = Read d"
  "lookup_clock (example_proxy_io d now ex) = now"
  "origin_exchange (example_proxy_io d now ex) = ex"
  "error_clock (example_proxy_io d now ex) = now"
  "client_send_ok (example_proxy_io d now ex)"
  "client_error_send_ok (example_proxy_io d now ex)"
  "clock_lookup (example_fetch_io now conn) = now"
  "origin (example_fetch_io now conn) = conn"
  "clock_fetch (example_fetch_io now conn) = now"
  by (simp_all add: example_proxy_io_def example_fetch_io_def)

theorem no_store_law_witness:
  "unpack example_codec ''N'' = Inr (example_response False 100 1000) \<and>
   \<not> cache_result (example_response False 100 1000) \<and>
   origin_exchange (example_proxy_io ''Q'' 1000 (Replied ''N'')) = Replied ''N'' \<and>
   fst (snd (proxy_iteration example_codec Map.empty
              (example_proxy_io ''Q'' 1000 (Replied ''N'')))) = Map.empty \<and>
   origin (example_fetch_io 1000 (Connected (Replied ''N''))) = Connected (Replied ''N'') \<and>
   fst (snd (proxy_process_request example_codec Map.empty
              (example_fetch_io 1000 (Connected (Replied ''N''))) example_request)) = Map.empty"
  using no_store_law
    [of example_codec "''N''" "example_response False 100 1000"
      "example_proxy_io ''Q'' 1000 (Replied ''N'')" Map.empty
      "example_fetch_io 1000 (Connected (Replied ''N''))" example_request]
  by (simp add: example_frames example_response_fields example_io_fields)

lemma handler_fresh_spec:
  "cache (data request, show_steps request) = Some entry \<Longrightarrow>
     handler_fresh cache now request = (if fresh_spec entry request now then Some entry else None)"
  by (auto simp: handler_fresh_def fresh_spec_def time_remaining_def INDEFINITE_def Let_def)

lemma lookup_fresh_spec:
  "cache (data request, show_steps request) = Some entry \<Longrightarrow> cache_control request \<noteq> 0 \<Longrightarrow>
     lookup_fresh cache now request =
       (if fresh_spec entry request now
        then Inl (entry,
                  Some (time_remaining (cache_control entry) (now - unix_time_stamp entry)),
                  Some (time_remaining (cache_control request) (now - unix_time_stamp entry)),
                  True, False, False)
        else Inr True)"
  by (auto simp: lookup_fresh_def fresh_spec_def time_remaining_def INDEFINITE_def Let_def)

lemma proxy_process_request_miss_to_origin:
  "is_request request \<Longrightarrow> lookup_fresh cache (clock_lookup fio) request = Inr stale \<Longrightarrow>
     origin fio = Connected (Replied reply) \<Longrightarrow>
     snd (snd (proxy_process_request cdc cache fio request)) = [pack cdc request]"
  by (simp add: proxy_process_request_def Let_def split: sum.splits)

text \<open>
  Claim C6. For a request whose key has a stored entry, the handler serves the entry
  exactly when the entry is fresh in the sense of section 4.4 (\<open>fresh_spec\<close>: both remaining
  windows \<open>> 0\<close>, the maximum cache-control counting as \<open>+\<infinity>\<close>), and otherwise forwards the
  request; with an origin that replies, nothing is sent to the origin if and only if the
  entry is fresh. \<^verbatim>\<open>process_request\<close> does the same for every request that reaches the lookup
  (\<open>cache_control \<noteq> 0\<close>). For an entry with \<open>cache_control = 100\<close> stamped \<open>T\<close> and a request
  that grants at least 100, the lookup at \<open>T + 99\<close> is served from the cache and the lookup
  at \<open>T + 101\<close> sends the request to the origin.
\<close>

theorem freshness_law:
  assumes "cache (data request, show_steps request) = Some entry"
    and "data request \<noteq> ''EXIT''"
  shows "proxy_dispatch cdc cache io d request =
           (if fresh_spec entry request (lookup_clock io)
            then (if client_send_ok io then (Continue, cache, [ToClient (pack cdc entry)])
                  else proxy_except cdc io cache [])
            else proxy_forward cdc cache io d request) \<and>
         (origin_exchange io = Replied reply \<longrightarrow>
            (to_origin (snd (snd (proxy_dispatch cdc cache io d request))) = []) =
              fresh_spec entry request (lookup_clock io)) \<and>
         (is_request request \<and> cache_control request \<noteq> 0 \<and>
          origin fio = Connected (Replied reply2) \<longrightarrow>
            (snd (snd (proxy_process_request cdc cache fio request)) = []) =
              fresh_spec entry request (clock_lookup fio) \<and>
            (fresh_spec entry request (clock_lookup fio) \<longrightarrow>
               fst (proxy_process_request cdc cache fio request) =
                 Inr (entry,
                      Some (time_remaining (cache_control entry)
                             (clock_lookup fio - unix_time_stamp entry)),
                      Some (time_remaining (cache_control request)
                             (clock_lookup fio - unix_time_stamp entry)),
                      True, False, False) \<and>
               fst (snd (proxy_process_request cdc cache fio request)) = cache)) \<and>
         (cache_control entry = 100 \<and> 100 \<le> cache_control request \<longrightarrow>
            (lookup_clock io99 = unix_time_stamp entry + 99 \<and> client_send_ok io99 \<longrightarrow>
               proxy_dispatch cdc cache io99 d request =
                 (Continue, cache, [ToClient (pack cdc entry)])) \<and>
            (lookup_clock io101 = unix_time_stamp entry + 101 \<and>
             origin_exchange io101 = Replied reply3 \<longrightarrow>
               to_origin (snd (snd (proxy_dispatch cdc cache io101 d request))) = [d]))"
proof -
  have dispatch: "proxy_dispatch cdc cache io' d request =
           (if fresh_spec entry request (lookup_clock io')
            then (if client_send_ok io' then (Continue, cache, [ToClient (pack cdc entry)])
                  else proxy_except cdc io' cache [])
            else proxy_forward cdc cache io' d request)" for io'
    using assms by (simp add: proxy_dispatch_def handler_fresh_spec)
  have contact: "(to_origin (snd (snd (proxy_dispatch cdc cache io' d request))) = []) =
      fresh_spec entry request (lookup_clock io')"
    if "origin_exchange io' = Replied r" for io' r
    using that
    by (simp add: dispatch proxy_except_to_origin proxy_forward_replied_to_origin)
  have fetch: "(snd (snd (proxy_process_request cdc cache fio request)) = []) =
      fresh_spec entry request (clock_lookup fio)"
    if "is_request request" "cache_control request \<noteq> 0" "origin fio = Connected (Replied reply2)"
  proof (cases "fresh_spec entry request (clock_lookup fio)")
    case True
    with that assms show ?thesis
      by (simp add: proxy_process_request_def lookup_fresh_spec)
  next
    case False
    with that assms
    have "lookup_fresh cache (clock_lookup fio) request = Inr True"
      by (simp add: lookup_fresh_spec)
    with that False show ?thesis
      by (simp add: proxy_process_request_miss_to_origin)
  qed
  have hit: "fst (proxy_process_request cdc cache fio request) =
                 Inr (entry,
                      Some (time_remaining (cache_control entry)
                             (clock_lookup fio - unix_time_stamp entry)),
                      Some (time_remaining (cache_control request)
                             (clock_lookup fio - unix_time_stamp entry)),
                      True, False, False) \<and>
               fst (snd (proxy_process_request cdc cache fio request)) = cache"
    if "is_request request" "cache_control request \<noteq> 0"
      "fresh_spec entry request (clock_lookup fio)"
    using that assms by (simp add: proxy_process_request_def lookup_fresh_spec)
  have f99: "fresh_spec entry request (unix_time_stamp entry + 99)"
    if "cache_control entry = 100" "100 \<le> cache_control request"
    using that by (simp add: fresh_spec_def)
  have f101: "\<not> fresh_spec entry request (unix_time_stamp entry + 101)"
    if "cache_control entry = 100"
    using that by (simp add: fresh_spec_def MAX_CACHE_CONTROL_def)
  have miss: "to_origin (snd (snd (proxy_dispatch cdc cache io' d request))) = [d]"
    if "\<not> fresh_spec entry request (lookup_clock io')" "origin_exchange io' = Replied r"
    for io' r
    using that by (simp add: dispatch proxy_forward_replied_to_origin)
  show ?thesis
  proof (intro conjI impI)
    show "proxy_dispatch cdc cache io d request =
           (if fresh_spec entry request (lookup_clock io)
            then (if client_send_ok io then (Continue, cache, [ToClient (pack cdc entry)])
                  else proxy_except cdc io cache [])
            else proxy_forward cdc cache io d request)"
      by (rule dispatch)
  qed (use contact fetch hit dispatch [of io99] f99 miss [of io101] f101 in simp_all)
qed

lemma example_cache_lookup: "example_cache entry (''2+3'', True) = Some entry"
  by (simp add: example_cache_def)

theorem freshness_law_witness:
  "example_cache (example_response True 100 1000)
     (data example_request, show_steps example_request) = Some (example_response True 100 1000) \<and>
   data example_request \<noteq> ''EXIT'' \<and>
   is_request example_request \<and> cache_control example_request \<noteq> 0 \<and>
   cache_control (example_response True 100 1000) = 100 \<and>
   100 \<le> cache_control example_request \<and>
   fresh_spec (example_response True 100 1000) example_request 1050 \<and>
   proxy_dispatch example_codec (example_cache (example_response True 100 1000))
       (example_proxy_io ''Q'' 1050 (Replied ''R'')) ''Q'' example_request =
     (Continue, example_cache (example_response True 100 1000),
      [ToClient (pack example_codec (example_response True 100 1000))]) \<and>
   to_origin (snd (snd (proxy_dispatch example_codec (example_cache (example_response True 100 1000))
       (example_proxy_io ''Q'' 1050 (Replied ''R'')) ''Q'' example_request))) = [] \<and>
   snd (snd (proxy_process_request example_codec (example_cache (example_response True 100 1000))
       (example_fetch_io 1050 (Connected (Replied ''R''))) example_request)) = [] \<and>
   fst (snd (proxy_process_request example_codec (example_cache (example_response True 100 1000))
       (example_fetch_io 1050 (Connected (Replied ''R''))) example_request)) =
     example_cache (example_response True 100 1000) \<and>
   proxy_dispatch example_codec (example_cache (example_response True 100 1000))
       (example_proxy_io ''Q'' 1099 (Replied ''R'')) ''Q'' example_request =
     (Continue, example_cache (example_response True 100 1000),
      [ToClient (pack example_codec (example_response True 100 1000))]) \<and>
   to_origin (snd (snd (proxy_dispatch example_codec (example_cache (example_response True 100 1000))
       (example_proxy_io ''Q'' 1101 (Replied ''R'')) ''Q'' example_request))) = [''Q'']"
proof -
  have f: "fresh_spec (example_response True 100 1000) example_request 1050"
    by (simp add: fresh_spec_def example_response_fields example_request_fields)
  show ?thesis
    using f freshness_law
      [where cache = "example_cache (example_response True 100 1000)"
        and request = example_request and entry = "example_response True 100 1000"
        and cdc = example_codec and d = "''Q''"
        and io = "example_proxy_io ''Q'' 1050 (Replied ''R'')" and reply = "''R''"
        and fio = "example_fetch_io 1050 (Connected (Replied ''R''))" and ?reply2.0 = "''R''"
        and ?io99.0 = "example_proxy_io ''Q'' 1099 (Replied ''R'')"
        and ?io101.0 = "example_proxy_io ''Q'' 1101 (Replied ''R'')" and ?reply3.0 = "''R''"]
    by (simp add: example_cache_lookup example_request_fields example_response_fields
        example_io_fields)
qed

lemma proxy_forward_store:
  "origin_exchange io = Replied reply \<Longrightarrow> unpack cdc reply = Inr response \<Longrightarrow>
     fst (snd (proxy_forward cdc cache io d request)) =
       (if cache_result request \<and> cache_result response
        then cache((data request, show_steps request) \<mapsto> response) else cache)"
  by (simp add: proxy_forward_def proxy_except_cache Let_def)

text \<open>
  Claim C3. The claim asks that a response be stored only when both remaining windows,
  computed from the response's time stamp, are \<open>> 0\<close>. The handler does not look at the
  windows: for a request that grants no window (\<open>cache_control = 0\<close>) and asks for caching,
  and a response stamped no later than the clock that allows caching, the client's
  window is not \<open>> 0\<close> and yet the handler stores the response. \<^verbatim>\<open>process_request\<close>, on the same
  exchange, leaves the cache as it was.
\<close>

theorem handler_stores_without_window:
  assumes "cache (data request, show_steps request) = None"
    and "data request \<noteq> ''EXIT''"
    and "origin_exchange io = Replied reply" and "unpack cdc reply = Inr response"
    and "cache_result request" and "cache_result response"
    and "cache_control request = 0" and "unix_time_stamp response \<le> now"
  shows "\<not> positive (time_remaining (cache_control request) (now - unix_time_stamp response)) \<and>
         fst (snd (proxy_dispatch cdc cache io d request)) =
           cache((data request, show_steps request) \<mapsto> response) \<and>
         (is_request request \<and> \<not> is_request response \<and>
          origin fio = Connected (Replied reply) \<and> clock_fetch fio = now \<longrightarrow>
            fst (snd (proxy_process_request cdc cache fio request)) = cache)"
proof (intro conjI impI)
  show closed: "\<not> positive (time_remaining (cache_control request) (now - unix_time_stamp response))"
    using assms by (simp add: time_remaining_def INDEFINITE_def MAX_CACHE_CONTROL_def)
  show "fst (snd (proxy_dispatch cdc cache io d request)) =
      cache((data request, show_steps request) \<mapsto> response)"
    using assms by (simp add: proxy_dispatch_def handler_fresh_def proxy_forward_store)
  assume "is_request request \<and> \<not> is_request response \<and>
          origin fio = Connected (Replied reply) \<and> clock_fetch fio = now"
  with assms closed show "fst (snd (proxy_process_request cdc cache fio request)) = cache"
    by (simp add: proxy_process_request_def lookup_fresh_def Let_def)
qed

theorem handler_stores_without_window_witness:
  "Map.empty (data reload_request, show_steps reload_request) = None \<and>
   data reload_request \<noteq> ''EXIT'' \<and>
   origin_exchange (example_proxy_io ''Q0'' 1000 (Replied ''R'')) = Replied ''R'' \<and>
   unpack example_codec ''R'' = Inr (example_response True 100 1000) \<and>
   cache_result reload_request \<and> cache_result (example_response True 100 1000) \<and>
   cache_control reload_request = 0 \<and>
   unix_time_stamp (example_response True 100 1000) \<le> 1000 \<and>
   \<not> positive (time_remaining (cache_control reload_request)
                 (1000 - unix_time_stamp (example_response True 100 1000))) \<and>
   fst (snd (proxy_dispatch example_codec Map.empty
               (example_proxy_io ''Q0'' 1000 (Replied ''R'')) ''Q0'' reload_request)) =
     Map.empty((data reload_request, show_steps reload_request)
                 \<mapsto> example_response True 100 1000) \<and>
   fst (snd (proxy_process_request example_codec Map.empty
               (example_fetch_io 1000 (Connected (Replied ''R''))) reload_request)) = Map.empty"
  using handler_stores_without_window
    [where cache = Map.empty and request = reload_request
      and io = "example_proxy_io ''Q0'' 1000 (Replied ''R'')" and reply = "''R''"
      and cdc = example_codec and response = "example_response True 100 1000"
      and now = 1000 and d = "''Q0''"
      and fio = "example_fetch_io 1000 (Connected (Replied ''R''))"]
  by (simp add: example_frames example_request_fields example_response_fields example_io_fields)

text \<open>
  When the handler's clock is not behind the entry's time stamp, a request with
  \<open>cache_control = 0\<close> is forwarded.
\<close>

lemma reload_forwarded_when_clock_not_behind:
  assumes "cache (data request, show_steps request) = Some entry"
    and "data request \<noteq> ''EXIT''" and "cache_control request = 0"
    and "unix_time_stamp entry \<le> lookup_clock io"
  shows "proxy_dispatch cdc cache io d request = proxy_forward cdc cache io d request"
  using assms
  by (simp add: proxy_dispatch_def handler_fresh_def Let_def time_remaining_def INDEFINITE_def
      MAX_CACHE_CONTROL_def)

text \<open>
  Claim C5. The claim asks that a request with \<open>cache_control = 0\<close> always reach the origin.
  The handler has no test for it: when the stored entry is stamped later than the
  handler's clock, the client's window \<open>0 - age\<close> is \<open>> 0\<close>, and the handler answers from the
  cache and sends nothing to the origin. \<^verbatim>\<open>process_request\<close>, which tests
  \<open>cache_control \<noteq> 0\<close> first, sends the same request to the origin.
\<close>

theorem reload_served_from_cache:
  assumes "cache (data request, show_steps request) = Some entry"
    and "data request \<noteq> ''EXIT''"
    and "cache_control request = 0"
    and "lookup_clock io < unix_time_stamp entry"
    and "positive (time_remaining (cache_control entry) (lookup_clock io - unix_time_stamp entry))"
    and "client_send_ok io"
  shows "proxy_dispatch cdc cache io d request = (Continue, cache, [ToClient (pack cdc entry)]) \<and>
         to_origin (snd (snd (proxy_dispatch cdc cache io d request))) = [] \<and>
         (is_request request \<and> origin fio = Connected (Replied reply) \<longrightarrow>
            snd (snd (proxy_process_request cdc cache fio request)) = [pack cdc request])"
proof -
  have "proxy_dispatch cdc cache io d request = (Continue, cache, [ToClient (pack cdc entry)])"
    using assms
    by (simp add: proxy_dispatch_def handler_fresh_def Let_def time_remaining_def INDEFINITE_def
        MAX_CACHE_CONTROL_def)
  moreover have "lookup_fresh cache (clock_lookup fio) request = Inr False"
    using assms by (simp add: lookup_fresh_def)
  ultimately show ?thesis
    by (auto simp: proxy_process_request_miss_to_origin [where stale = False])
qed

theorem reload_served_from_cache_witness:
  "example_cache (example_response True 100 1000)
     (data reload_request, show_steps reload_request) = Some (example_response True 100 1000) \<and>
   data reload_request \<noteq> ''EXIT'' \<and> cache_control reload_request = 0 \<and>
   lookup_clock (example_proxy_io ''Q0'' 990 (Replied ''R''))
     < unix_time_stamp (example_response True 100 1000) \<and>
   client_send_ok (example_proxy_io ''Q0'' 990 (Replied ''R'')) \<and>
   is_request reload_request \<and>
   proxy_dispatch example_codec (example_cache (example_response True 100 1000))
       (example_proxy_io ''Q0'' 990 (Replied ''R'')) ''Q0'' reload_request =
     (Continue, example_cache (example_response True 100 1000),
      [ToClient (pack example_codec (example_response True 100 1000))]) \<and>
   to_origin (snd (snd (proxy_dispatch example_codec
       (example_cache (example_response True 100 1000))
       (example_proxy_io ''Q0'' 990 (Replied ''R'')) ''Q0'' reload_request))) = [] \<and>
   snd (snd (proxy_process_request example_codec (example_cache (example_response True 100 1000))
       (example_fetch_io 990 (Connected (Replied ''R''))) reload_request)) =
     [pack example_codec reload_request]"
  using reload_served_from_cache
    [where cache = "example_cache (example_response True 100 1000)"
      and request = reload_request and entry = "example_response True 100 1000"
      and io = "example_proxy_io ''Q0'' 990 (Replied ''R'')" and cdc = example_codec
      and d = "''Q0''" and fio = "example_fetch_io 990 (Connected (Replied ''R''))"
      and reply = "''R''"]
  by (simp add: example_cache_lookup example_request_fields example_response_fields
      example_io_fields time_remaining_def INDEFINITE_def MAX_CACHE_CONTROL_def)

text \<open>
  Claim C8. The claim asks that a failure to establish the connection to the origin be
  surfaced to the requester as a \<open>SERVER_ERROR\<close> response. The handler connects once, as the
  requester connects, outside its \<^verbatim>\<open>try\<close> block; when the connection is refused it prints
  a line and returns: for every codec, cache and input, nothing is sent to the requester
  (the cache is left as it was). In the run below a requester that sends a request for a
  stale entry gets no answer at all. \<^verbatim>\<open>process_request\<close>, on the same refusal, raises
  \<open>CalculatorServerError\<close>, which the \<^verbatim>\<open>except\<close> block of the handler would turn into a
  \<open>SERVER_ERROR\<close> response.
\<close>

theorem refused_connection_silent:
  "proxy_client_handler cdc cache False ios = (cache, []) \<and>
   to_client (snd (proxy_client_handler example_codec
                     (example_cache (example_response True 100 1000)) False
                     [example_proxy_io ''Q'' 1101 (Replied ''R'')])) = [] \<and>
   fst (proxy_process_request example_codec (example_cache (example_response True 100 1000))
          (example_fetch_io 1101 ConnectionRefused) example_request) =
     Inl CalculatorServerError"
proof (intro conjI)
  show "proxy_client_handler cdc cache False ios = (cache, [])"
    by (simp add: proxy_client_handler_def)
  show "to_client (snd (proxy_client_handler example_codec
                     (example_cache (example_response True 100 1000)) False
                     [example_proxy_io ''Q'' 1101 (Replied ''R'')])) = []"
    by (simp add: proxy_client_handler_def)
  have "\<not> fresh_spec (example_response True 100 1000) example_request 1101"
    by (simp add: fresh_spec_def example_response_fields example_request_fields
        MAX_CACHE_CONTROL_def)
  then have "lookup_fresh (example_cache (example_response True 100 1000)) 1101 example_request =
      Inr True"
    by (simp add: lookup_fresh_spec example_cache_lookup example_request_fields)
  then show "fst (proxy_process_request example_codec
      (example_cache (example_response True 100 1000))
      (example_fetch_io 1101 ConnectionRefused) example_request) = Inl CalculatorServerError"
    by (simp add: proxy_process_request_def example_request_fields example_io_fields)
qed

text \<open>
  What the handler does with the other failures of the origin, once it is connected. In
  an exchange that is neither the \<open>EXIT\<close> relay nor served from the cache, when the send or
  the receive on the origin connection raises or the origin's reply cannot be decoded,
  and the \<^verbatim>\<open>sendall\<close> of the \<^verbatim>\<open>except\<close> block succeeds, the requester is sent a \<open>SERVER_ERROR\<close>
  response with \<open>cache_result\<close> false and \<open>cache_control\<close> 0, the loop goes on and the cache
  is unchanged. (When that \<^verbatim>\<open>sendall\<close> raises, the exception leaves the handler; an \<open>EXIT\<close>
  message is relayed with whatever the origin replied.)
\<close>

lemma proxy_except_to_client:
  "client_error_send_ok io \<Longrightarrow>
     proxy_except cdc io cache evs =
       (Continue, cache, evs @ [ToClient (pack cdc (internal_proxy_error cdc (error_clock io)))])"
  by (simp add: proxy_except_def)

lemma internal_proxy_error_fields:
  "status_code (internal_proxy_error cdc now) = STATUS_SERVER_ERROR"
  "cache_result (internal_proxy_error cdc now) = False"
  "cache_control (internal_proxy_error cdc now) = 0"
  by (simp_all add: internal_proxy_error_def from_error_def from_response_def)

lemma origin_failure_answered:
  assumes "handler_fresh cache (lookup_clock io) request = None"
    and "data request \<noteq> ''EXIT''"
    and "client_error_send_ok io"
    and "origin_exchange io = SendRaised \<or> origin_exchange io = RecvRaised \<or>
         (\<exists>reply e. origin_exchange io = Replied reply \<and> unpack cdc reply = Inl e)"
  shows "fst (proxy_dispatch cdc cache io d request) = Continue"
    and "fst (snd (proxy_dispatch cdc cache io d request)) = cache"
    and "to_client (snd (snd (proxy_dispatch cdc cache io d request))) =
           [pack cdc (internal_proxy_error cdc (error_clock io))]"
proof -
  from assms have fw:
    "proxy_dispatch cdc cache io d request = proxy_forward cdc cache io d request"
    by (simp add: proxy_dispatch_def)
  from assms have "\<exists>evs. proxy_forward cdc cache io d request =
      (Continue, cache, evs @ [ToClient (pack cdc (internal_proxy_error cdc (error_clock io)))]) \<and>
      to_client evs = []"
    by (auto simp: proxy_forward_def proxy_except_to_client)
  then obtain evs where
    "proxy_dispatch cdc cache io d request =
       (Continue, cache, evs @ [ToClient (pack cdc (internal_proxy_error cdc (error_clock io)))])"
    and "to_client evs = []"
    using fw by auto
  then show "fst (proxy_dispatch cdc cache io d request) = Continue"
    and "fst (snd (proxy_dispatch cdc cache io d request)) = cache"
    and "to_client (snd (snd (proxy_dispatch cdc cache io d request))) =
        [pack cdc (internal_proxy_error cdc (error_clock io))]"
    by (simp_all add: to_client_append)
qed

text \<open>
  Whatever the origin does short of a reply that decodes, a turn of the loop leaves the
  cache as it was, also when the error cannot be sent and in the \<open>EXIT\<close> relay.
\<close>

lemma origin_failure_nothing_cached:
  assumes "origin_exchange io = SendRaised \<or> origin_exchange io = RecvRaised \<or>
         (\<exists>reply e. origin_exchange io = Replied reply \<and> unpack cdc reply = Inl e)"
  shows "fst (snd (proxy_iteration cdc cache io)) = cache"
proof -
  have "\<And>d request. fst (snd (proxy_dispatch cdc cache io d request)) = cache"
    using assms by (intro proxy_dispatch_no_store) auto
  then show ?thesis
    by (simp add: proxy_iteration_def proxy_except_cache split: received.splits sum.splits)
qed

text \<open>
  \<^verbatim>\<open>process_request\<close> on a request that needs a fetch: a refused connection raises
  \<open>CalculatorServerError\<close>, a reply that cannot be decoded raises \<open>CalculatorClientError\<close>; the
  cache is unchanged.
\<close>

lemma process_request_origin_failure:
  assumes "is_request request" and "lookup_fresh cache (clock_lookup fio) request = Inr stale"
  shows "origin fio = ConnectionRefused \<Longrightarrow>
           proxy_process_request cdc cache fio request = (Inl CalculatorServerError, cache, [])"
    and "origin fio = Connected (Replied reply) \<Longrightarrow> unpack cdc reply = Inl e \<Longrightarrow>
           proxy_process_request cdc cache fio request =
             (Inl CalculatorClientError, cache, [pack cdc request])"
  using assms by (simp_all add: proxy_process_request_def)

end
